theory Spec2Isabelle
  imports Main "HOL-Library.Word"
begin

section \<open>Expression-template matrices (matrix.hpp)\<close>

text \<open>
  The header defines a statically dispatched base class \<^verbatim>\<open>matrix_expr\<close> (a shape plus a
  coordinate lookup \<^verbatim>\<open>at\<close>), the dense container \<^verbatim>\<open>matrix<T>\<close> and the deferred nodes
  \<^verbatim>\<open>matrix_sum\<close>, \<^verbatim>\<open>matrix_sub\<close> and \<^verbatim>\<open>matrix_prod\<close>.

  Conventions of the embedding.
  \<^item> \<^verbatim>\<open>size_t\<close> values are \<open>nat\<close>: dimensions, their products and the indices are
    taken to stay below \<open>2 ^ 64\<close>, as the length of any buffer does, so that index
    arithmetic does not wrap.
  \<^item> Element types are signed integer types at least as wide as \<^verbatim>\<open>int\<close>, modelled as
    \<open>'a word\<close>: \<^verbatim>\<open>int\<close> is \<open>32 word\<close>, \<^verbatim>\<open>long long\<close> is \<open>64 word\<close>. Arithmetic wraps and a
    conversion between widths is \<open>scast\<close> (sign extension when widening, truncation when
    narrowing).
  \<^item> \<^verbatim>\<open>assert\<close> is active: a failed assertion is the result \<open>Inl Assertion_failed\<close>.
  \<^item> \<^verbatim>\<open>std::vector::operator[]\<close> performs no bounds check; an index outside the buffer
    is the result \<open>Inl Undefined_behaviour\<close>: nothing in the program detects it.
\<close>

datatype error = Assertion_failed | Undefined_behaviour

type_synonym cint = "32 word"
type_synonym clonglong = "64 word"

subsection \<open>Loops\<close>

text \<open>\<^verbatim>\<open>for (size_t i = lo; i < n; i++) body\<close>, the body threading the state \<open>s\<close>
  and stopping at the first failure.\<close>

function for_loop :: "nat \<Rightarrow> nat \<Rightarrow> (nat \<Rightarrow> 's \<Rightarrow> error + 's) \<Rightarrow> 's \<Rightarrow> error + 's" where
  "for_loop i n body s =
     (if i < n then
        (case body i s of
           Inl e \<Rightarrow> Inl e
         | Inr s' \<Rightarrow> for_loop (Suc i) n body s')
      else Inr s)"
  by pat_completeness auto
termination
  by (relation "measure (\<lambda>(i, n, body, s). n - i)") auto

declare for_loop.simps [simp del]

subsection \<open>The base class and the dense container\<close>

text \<open>The protected members \<^verbatim>\<open>num_rows_\<close> and \<^verbatim>\<open>num_cols_\<close> of \<^verbatim>\<open>matrix_expr\<close>, inherited by
  every class below; the selectors are the accessors \<^verbatim>\<open>num_rows()\<close> and \<^verbatim>\<open>num_cols()\<close>.
  (An Isabelle name cannot end in an underscore: the buffer \<^verbatim>\<open>matrix_\<close> is \<open>matrix_vec\<close>.)\<close>

record shape_members =
  num_rows :: nat
  num_cols :: nat

text \<open>A \<^verbatim>\<open>matrix_expr<E>\<close> seen through its interface: the shape and the lookup that
  \<^verbatim>\<open>matrix_expr::at\<close> forwards to the derived class. \<open>'v\<close> is the type \<^verbatim>\<open>auto\<close> deduces
  for the value of \<^verbatim>\<open>at\<close>.\<close>

record 'v matrix_expr = shape_members +
  at :: "nat \<Rightarrow> nat \<Rightarrow> error + 'v"

text \<open>\<^verbatim>\<open>matrix<T>\<close>: the shape and the row-major buffer \<^verbatim>\<open>matrix_\<close>.\<close>

record 'a matrix = shape_members +
  matrix_vec :: "'a list"

text \<open>\<^verbatim>\<open>v[i]\<close> on a \<^verbatim>\<open>std::vector\<close>, reading and writing.\<close>

definition vector_index :: "'a list \<Rightarrow> nat \<Rightarrow> error + 'a" where
  "vector_index v i = (if i < length v then Inr (v ! i) else Inl Undefined_behaviour)"

definition vector_assign :: "'a list \<Rightarrow> nat \<Rightarrow> 'a \<Rightarrow> error + 'a list" where
  "vector_assign v i x = (if i < length v then Inr (v[i := x]) else Inl Undefined_behaviour)"

text \<open>\<^verbatim>\<open>matrix<T>() = default\<close>. The defaulted constructor default-constructs the vector
  (empty) and writes neither \<^verbatim>\<open>num_rows_\<close> nor \<^verbatim>\<open>num_cols_\<close>, which have no initialiser in
  \<^verbatim>\<open>matrix_expr\<close>: they keep what the object's storage \<open>mem\<close> held before.\<close>

definition matrix_default :: "'a matrix \<Rightarrow> 'a matrix" where
  "matrix_default mem = mem\<lparr>matrix_vec := []\<rparr>"

text \<open>\<^verbatim>\<open>matrix<T>(size_t rows, size_t columns, std::vector<T> data)\<close>.\<close>

definition matrix_ctor :: "nat \<Rightarrow> nat \<Rightarrow> 'a list \<Rightarrow> 'a matrix" where
  "matrix_ctor rows columns data = \<lparr>num_rows = rows, num_cols = columns, matrix_vec = data\<rparr>"

text \<open>\<^verbatim>\<open>T at(size_t row, size_t col) const\<close>.\<close>

definition matrix_at :: "'a matrix \<Rightarrow> nat \<Rightarrow> nat \<Rightarrow> error + 'a" where
  "matrix_at m row col =
     (if \<not> col \<le> num_cols m then Inl Assertion_failed
      else if \<not> row \<le> num_rows m then Inl Assertion_failed
      else vector_index (matrix_vec m) (row * num_cols m + col))"

text \<open>\<^verbatim>\<open>T& at(size_t row, size_t col)\<close> followed by an assignment through the reference.\<close>

definition matrix_at_assign :: "'a matrix \<Rightarrow> nat \<Rightarrow> nat \<Rightarrow> 'a \<Rightarrow> error + 'a matrix" where
  "matrix_at_assign m row col x =
     (if \<not> col \<le> num_cols m then Inl Assertion_failed
      else if \<not> row \<le> num_rows m then Inl Assertion_failed
      else (case vector_assign (matrix_vec m) (row * num_cols m + col) x of
              Inl e \<Rightarrow> Inl e
            | Inr v \<Rightarrow> Inr (m\<lparr>matrix_vec := v\<rparr>)))"

text \<open>A dense matrix as a \<^verbatim>\<open>matrix_expr<matrix<T>>\<close>: the base-class view whose \<^verbatim>\<open>at\<close>
  casts back to the derived class.\<close>

definition matrix_as_expr :: "'a matrix \<Rightarrow> 'a matrix_expr" where
  "matrix_as_expr m = \<lparr>num_rows = num_rows m, num_cols = num_cols m, at = matrix_at m\<rparr>"

text \<open>The invariant the specification gives Dense Storage.\<close>

definition matrix_inv :: "'a matrix \<Rightarrow> bool" where
  "matrix_inv m \<longleftrightarrow> length (matrix_vec m) = num_rows m * num_cols m"

text \<open>\<^verbatim>\<open>matrix<T>(std::initializer_list<std::initializer_list<T>> list)\<close>. The two
  range-based loops, with their counters \<^verbatim>\<open>cur_col\<close> and \<^verbatim>\<open>cur_row\<close>.\<close>

fun list_elems :: "'a matrix \<Rightarrow> nat \<Rightarrow> nat \<Rightarrow> 'a list \<Rightarrow> error + 'a matrix" where
  "list_elems m cur_row cur_col [] = Inr m"
| "list_elems m cur_row cur_col (elem # row) =
     (case matrix_at_assign m cur_row cur_col elem of
        Inl e \<Rightarrow> Inl e
      | Inr m' \<Rightarrow> list_elems m' cur_row (Suc cur_col) row)"

fun list_rows :: "'a matrix \<Rightarrow> nat \<Rightarrow> 'a list list \<Rightarrow> error + 'a matrix" where
  "list_rows m cur_row [] = Inr m"
| "list_rows m cur_row (row # list) =
     (if length row \<noteq> num_cols m then Inl Assertion_failed
      else (case list_elems m cur_row 0 row of
              Inl e \<Rightarrow> Inl e
            | Inr m' \<Rightarrow> list_rows m' (Suc cur_row) list))"

text \<open>\<^verbatim>\<open>list.begin()->size()\<close> dereferences the end iterator of an empty list;
  \<^verbatim>\<open>resize\<close> on the empty vector value-initialises every element.\<close>

definition matrix_from_list :: "'a::zero list list \<Rightarrow> error + 'a matrix" where
  "matrix_from_list list =
     (case list of
        [] \<Rightarrow> Inl Undefined_behaviour
      | first # _ \<Rightarrow>
          list_rows \<lparr>num_rows = length list, num_cols = length first,
                     matrix_vec = replicate (length list * length first) 0\<rparr> 0 list)"

text \<open>\<^verbatim>\<open>T max()\<close>: \<^verbatim>\<open>matrix_[0]\<close>, then \<^verbatim>\<open>for_each\<close> over the buffer with the signed
  comparison \<^verbatim>\<open>max_val > cur_val ? max_val : cur_val\<close>.\<close>

definition matrix_max :: "'a::len word matrix \<Rightarrow> error + 'a word" where
  "matrix_max m =
     (case vector_index (matrix_vec m) 0 of
        Inl e \<Rightarrow> Inl e
      | Inr max_val \<Rightarrow>
          Inr (fold (\<lambda>cur_val max_val. if word_sless cur_val max_val then max_val else cur_val)
                 (matrix_vec m) max_val))"

text \<open>\<^verbatim>\<open>matrix<T>(matrix_expr<E> const& expr)\<close>, the constructor that forces evaluation:
  the assignment in the loops (\<^verbatim>\<open>static_cast<T>\<close> is \<open>scast\<close>), the inner loop, and the
  constructor with the outer loop.\<close>

definition store_elem ::
  "'b::len word matrix_expr \<Rightarrow> nat \<Rightarrow> nat \<Rightarrow> 'a::len word matrix \<Rightarrow> error + 'a word matrix" where
  "store_elem expr i j m =
     (case at expr i j of
        Inl e \<Rightarrow> Inl e
      | Inr x \<Rightarrow>
          (case vector_assign (matrix_vec m) (i * num_cols m + j) (scast x) of
             Inl e \<Rightarrow> Inl e
           | Inr v \<Rightarrow> Inr (m\<lparr>matrix_vec := v\<rparr>)))"

definition store_row ::
  "'b::len word matrix_expr \<Rightarrow> nat \<Rightarrow> 'a::len word matrix \<Rightarrow> error + 'a word matrix" where
  "store_row expr i m = for_loop 0 (num_cols m) (store_elem expr i) m"

definition matrix_from_expr :: "'b::len word matrix_expr \<Rightarrow> error + 'a::len word matrix" where
  "matrix_from_expr expr =
     for_loop 0 (num_rows expr) (store_row expr)
       \<lparr>num_rows = num_rows expr, num_cols = num_cols expr,
        matrix_vec = replicate (num_rows expr * num_cols expr) 0\<rparr>"

subsection \<open>Deferred nodes\<close>

text \<open>A node holds references to its operands and caches its shape; its \<^verbatim>\<open>at\<close> asks the
  operands again at every call. Both operands of a node have the same value type here.\<close>

definition matrix_sum_at ::
  "'a::len word matrix_expr \<Rightarrow> 'a word matrix_expr \<Rightarrow> nat \<Rightarrow> nat \<Rightarrow> error + 'a word" where
  "matrix_sum_at lhs rhs row col =
     (case at lhs row col of
        Inl e \<Rightarrow> Inl e
      | Inr x \<Rightarrow> (case at rhs row col of Inl e \<Rightarrow> Inl e | Inr y \<Rightarrow> Inr (x + y)))"

definition matrix_sum ::
  "'a::len word matrix_expr \<Rightarrow> 'a word matrix_expr \<Rightarrow> error + 'a word matrix_expr" where
  "matrix_sum u v =
     (if \<not> (num_rows u = num_rows v \<and> num_cols u = num_cols v) then Inl Assertion_failed
      else Inr \<lparr>num_rows = num_rows u, num_cols = num_cols u, at = matrix_sum_at u v\<rparr>)"

definition matrix_sub_at ::
  "'a::len word matrix_expr \<Rightarrow> 'a word matrix_expr \<Rightarrow> nat \<Rightarrow> nat \<Rightarrow> error + 'a word" where
  "matrix_sub_at lhs rhs row col =
     (case at lhs row col of
        Inl e \<Rightarrow> Inl e
      | Inr x \<Rightarrow> (case at rhs row col of Inl e \<Rightarrow> Inl e | Inr y \<Rightarrow> Inr (x - y)))"

definition matrix_sub ::
  "'a::len word matrix_expr \<Rightarrow> 'a word matrix_expr \<Rightarrow> error + 'a word matrix_expr" where
  "matrix_sub u v =
     (if \<not> (num_rows u = num_rows v \<and> num_cols u = num_cols v) then Inl Assertion_failed
      else Inr \<lparr>num_rows = num_rows u, num_cols = num_cols u, at = matrix_sub_at u v\<rparr>)"

text \<open>\<^verbatim>\<open>dot_product += x\<close> where \<^verbatim>\<open>dot_product\<close> is the \<^verbatim>\<open>int\<close> that \<^verbatim>\<open>auto dot_product = 0\<close>
  declares and \<open>x\<close> has the element type: the sum is formed in the element type (the
  \<^verbatim>\<open>int\<close> converted to it) and converted back to \<^verbatim>\<open>int\<close>.\<close>

definition int_add_assign :: "cint \<Rightarrow> 'a::len word \<Rightarrow> cint" where
  "int_add_assign dot_product x = scast ((scast dot_product :: 'a word) + x)"

text \<open>The primary template of \<^verbatim>\<open>matrix_prod\<close>; \<^verbatim>\<open>at\<close> returns the \<^verbatim>\<open>int\<close> accumulator.\<close>

definition matrix_prod_at ::
  "'a::len word matrix_expr \<Rightarrow> 'a word matrix_expr \<Rightarrow> nat \<Rightarrow> nat \<Rightarrow> nat \<Rightarrow> error + cint" where
  "matrix_prod_at lhs rhs shared_dim row col =
     for_loop 0 shared_dim
       (\<lambda>i dot_product.
          case at lhs row i of
            Inl e \<Rightarrow> Inl e
          | Inr x \<Rightarrow>
              (case at rhs i col of
                 Inl e \<Rightarrow> Inl e
               | Inr y \<Rightarrow> Inr (int_add_assign dot_product (x * y))))
       0"

definition matrix_prod ::
  "'a::len word matrix_expr \<Rightarrow> 'a word matrix_expr \<Rightarrow> error + cint matrix_expr" where
  "matrix_prod lhs rhs =
     (if \<not> num_cols lhs = num_rows rhs then Inl Assertion_failed
      else Inr \<lparr>num_rows = num_rows lhs, num_cols = num_cols rhs,
                at = matrix_prod_at lhs rhs (num_cols lhs)\<rparr>)"

text \<open>The specialisation for a scalar left operand, and the one for a scalar right
  operand; neither constructor asserts anything.\<close>

definition matrix_prod_scalar_lhs :: "'a::len word \<Rightarrow> 'a word matrix_expr \<Rightarrow> 'a word matrix_expr" where
  "matrix_prod_scalar_lhs lhs rhs =
     \<lparr>num_rows = num_rows rhs, num_cols = num_cols rhs,
      at = (\<lambda>row col. case at rhs row col of Inl e \<Rightarrow> Inl e | Inr x \<Rightarrow> Inr (lhs * x))\<rparr>"

definition matrix_prod_scalar_rhs :: "'a::len word matrix_expr \<Rightarrow> 'a word \<Rightarrow> 'a word matrix_expr" where
  "matrix_prod_scalar_rhs lhs rhs =
     \<lparr>num_rows = num_rows lhs, num_cols = num_cols lhs,
      at = (\<lambda>row col. case at lhs row col of Inl e \<Rightarrow> Inl e | Inr x \<Rightarrow> Inr (rhs * x))\<rparr>"

subsection \<open>Operators\<close>

text \<open>\<^verbatim>\<open>operator+\<close>, \<^verbatim>\<open>operator-\<close> and \<^verbatim>\<open>operator*\<close>; the class template that \<^verbatim>\<open>operator*\<close>
  instantiates is chosen by the static kinds of the operands, hence three functions.\<close>

definition operator_plus ::
  "'a::len word matrix_expr \<Rightarrow> 'a word matrix_expr \<Rightarrow> error + 'a word matrix_expr" where
  "operator_plus lhs rhs = matrix_sum lhs rhs"

definition operator_minus ::
  "'a::len word matrix_expr \<Rightarrow> 'a word matrix_expr \<Rightarrow> error + 'a word matrix_expr" where
  "operator_minus lhs rhs = matrix_sub lhs rhs"

definition operator_times ::
  "'a::len word matrix_expr \<Rightarrow> 'a word matrix_expr \<Rightarrow> error + cint matrix_expr" where
  "operator_times lhs rhs = matrix_prod lhs rhs"

definition operator_times_scalar_lhs ::
  "'a::len word \<Rightarrow> 'a word matrix_expr \<Rightarrow> 'a word matrix_expr" where
  "operator_times_scalar_lhs lhs rhs = matrix_prod_scalar_lhs lhs rhs"

definition operator_times_scalar_rhs ::
  "'a::len word matrix_expr \<Rightarrow> 'a word \<Rightarrow> 'a word matrix_expr" where
  "operator_times_scalar_rhs lhs rhs = matrix_prod_scalar_rhs lhs rhs"

text \<open>\<^verbatim>\<open>operator+=\<close>, \<^verbatim>\<open>operator-=\<close> and \<^verbatim>\<open>operator*=\<close>. Each takes its left operand by
  reference; the pair returned is that operand as the call leaves it, and the value
  returned.\<close>

definition operator_plus_assign ::
  "'a::len word matrix_expr \<Rightarrow> 'a word matrix_expr
   \<Rightarrow> 'a word matrix_expr \<times> (error + 'a word matrix_expr)" where
  "operator_plus_assign lhs rhs = (lhs, matrix_sum lhs rhs)"

definition operator_minus_assign ::
  "'a::len word matrix_expr \<Rightarrow> 'a word matrix_expr
   \<Rightarrow> 'a word matrix_expr \<times> (error + 'a word matrix_expr)" where
  "operator_minus_assign lhs rhs = (lhs, matrix_sub lhs rhs)"

definition operator_times_assign ::
  "'a::len word matrix_expr \<Rightarrow> 'a word matrix_expr
   \<Rightarrow> 'a word matrix_expr \<times> (error + cint matrix_expr)" where
  "operator_times_assign lhs rhs = (lhs, matrix_prod lhs rhs)"

definition operator_times_assign_scalar_lhs ::
  "'a::len word \<Rightarrow> 'a word matrix_expr \<Rightarrow> 'a word \<times> 'a word matrix_expr" where
  "operator_times_assign_scalar_lhs lhs rhs = (lhs, matrix_prod_scalar_lhs lhs rhs)"

definition operator_times_assign_scalar_rhs ::
  "'a::len word matrix_expr \<Rightarrow> 'a word \<Rightarrow> 'a word matrix_expr \<times> 'a word matrix_expr" where
  "operator_times_assign_scalar_rhs lhs rhs = (lhs, matrix_prod_scalar_rhs lhs rhs)"

subsection \<open>Rendering\<close>

text \<open>The inserter of a signed integer into a \<^verbatim>\<open>std::ostream\<close> with the default flags:
  decimal digits, a minus sign before a negative value.\<close>

definition digit_char :: "nat \<Rightarrow> char" where
  "digit_char d = ''0123456789'' ! d"

function show_nat :: "nat \<Rightarrow> string" where
  "show_nat n = (if n < 10 then [digit_char n] else show_nat (n div 10) @ [digit_char (n mod 10)])"
  by pat_completeness auto
termination
  by (relation "measure id") auto

declare show_nat.simps [simp del]

definition show_int :: "int \<Rightarrow> string" where
  "show_int i = (if i < 0 then CHR ''-'' # show_nat (nat (- i)) else show_nat (nat i))"

definition put_word :: "'a::len word \<Rightarrow> string" where
  "put_word x = show_int (sint x)"

text \<open>\<^verbatim>\<open>operator<<(std::ostream& stream, const matrix_expr<E>& expr)\<close>. The stream is the
  text written to it so far; \<open>put\<close> is the inserter of the value type.\<close>

definition operator_shl :: "('v \<Rightarrow> string) \<Rightarrow> string \<Rightarrow> 'v matrix_expr \<Rightarrow> error + string" where
  "operator_shl put stream expr =
     (if num_rows expr = 0 then Inr stream
      else for_loop 0 (num_rows expr)
             (\<lambda>i stream.
                case for_loop 0 (num_cols expr)
                       (\<lambda>j stream. case at expr i j of
                                      Inl e \<Rightarrow> Inl e
                                    | Inr x \<Rightarrow> Inr (stream @ put x @ [CHR '' '']))
                       stream of
                  Inl e \<Rightarrow> Inl e
                | Inr stream' \<Rightarrow> Inr (stream' @ [CHR 0x0A]))
             stream)"

subsection \<open>Specification of a block of writes\<close>

text \<open>The buffer \<open>v\<close> after the positions \<open>lo \<le> k < hi\<close> have received \<open>g k\<close>; the
  loop invariants below are phrased with it.\<close>

definition written :: "'a list \<Rightarrow> nat \<Rightarrow> nat \<Rightarrow> (nat \<Rightarrow> 'a) \<Rightarrow> 'a list" where
  "written v lo hi g = map (\<lambda>k. if lo \<le> k \<and> k < hi then g k else v ! k) [0..<length v]"

text \<open>Two states of a store with the same shape and the same buffer length.\<close>

definition same_layout :: "'a matrix \<Rightarrow> 'a matrix \<Rightarrow> bool" where
  "same_layout m m' \<longleftrightarrow>
     num_rows m' = num_rows m \<and> num_cols m' = num_cols m
     \<and> length (matrix_vec m') = length (matrix_vec m)"

section \<open>Coordinate lookup on dense storage\<close>

lemma index_in_buffer: "i < r \<Longrightarrow> j < c \<Longrightarrow> i * c + j < r * (c::nat)"
proof -
  assume "i < r" and "j < c"
  then have "i * c + j < Suc i * c" by simp
  also from \<open>i < r\<close> have "Suc i * c \<le> r * c"
    by (intro mult_le_mono1) simp
  finally show ?thesis .
qed

lemma matrix_at_in_range:
  "matrix_inv m \<Longrightarrow> row < num_rows m \<Longrightarrow> col < num_cols m \<Longrightarrow>
   matrix_at m row col = Inr (matrix_vec m ! (row * num_cols m + col))"
  by (simp add: matrix_at_def vector_index_def matrix_inv_def index_in_buffer)

text \<open>What \<^verbatim>\<open>at\<close> detects, and what it lets through on a store whose buffer has
  \<open>rows * cols\<close> elements: the row just behind the last one is read outside the buffer,
  and the column just behind the last one is read as the first column of the next row.\<close>

lemma matrix_at_detected:
  "matrix_at m row col = Inl Assertion_failed \<longleftrightarrow> num_cols m < col \<or> num_rows m < row"
  by (auto simp add: matrix_at_def vector_index_def)

lemma matrix_at_row_behind:
  "matrix_inv m \<Longrightarrow> col \<le> num_cols m \<Longrightarrow> matrix_at m (num_rows m) col = Inl Undefined_behaviour"
  by (simp add: matrix_at_def vector_index_def matrix_inv_def)

lemma matrix_at_col_behind:
  "row < num_rows m \<Longrightarrow> matrix_at m row (num_cols m) = matrix_at m (Suc row) 0"
  by (simp add: matrix_at_def add.commute)

text \<open>
  Claim C4. Lookups on dense storage are valid exactly for \<open>row < rowCount\<close> and
  \<open>col < colCount\<close>, and every other coordinate is detected as a contract violation.
  The assertions of \<^verbatim>\<open>matrix::at\<close> compare with \<^verbatim>\<open><=\<close>: on the 2 by 2 store
  \<open>{{1,2},{3,4}}\<close> the coordinate \<open>(0,2)\<close> passes both and returns the element of
  \<open>(1,0)\<close>, and \<open>(2,0)\<close> passes both and reads behind the buffer; only coordinates
  beyond the count itself are caught.
\<close>

theorem matrix_at_off_by_one:
  "matrix_at (matrix_ctor 2 2 [1, 2, 3, 4 :: cint]) 0 2 = Inr 3
   \<and> matrix_at (matrix_ctor 2 2 [1, 2, 3, 4 :: cint]) 1 0 = Inr 3
   \<and> matrix_at (matrix_ctor 2 2 [1, 2, 3, 4 :: cint]) 2 0 = Inl Undefined_behaviour
   \<and> matrix_at (matrix_ctor 2 2 [1, 2, 3, 4 :: cint]) 0 3 = Inl Assertion_failed
   \<and> matrix_at (matrix_ctor 2 2 [1, 2, 3, 4 :: cint]) 3 0 = Inl Assertion_failed"
  by (simp add: matrix_at_def matrix_ctor_def vector_index_def)


section \<open>Loops and blocks of writes\<close>

lemma for_loop_done [simp]: "\<not> i < n \<Longrightarrow> for_loop i n body s = Inr s"
  by (simp add: for_loop.simps)

lemma for_loop_step:
  "i < n \<Longrightarrow> body i s = Inr s' \<Longrightarrow> for_loop i n body s = for_loop (Suc i) n body s'"
  by (subst for_loop.simps) simp

lemma for_loop_fail:
  "i < n \<Longrightarrow> body i s = Inl e \<Longrightarrow> for_loop i n body s = Inl e"
  by (subst for_loop.simps) simp

lemma length_written [simp]: "length (written v lo hi g) = length v"
  by (simp add: written_def)

lemma written_empty [simp]: "written v lo lo g = v"
  by (rule nth_equalityI) (auto simp add: written_def)

lemma written_step:
  "lo < hi \<Longrightarrow> lo < length v \<Longrightarrow> written (v[lo := g lo]) (Suc lo) hi g = written v lo hi g"
  by (rule nth_equalityI) (auto simp add: written_def nth_list_update)

lemma written_append:
  "a \<le> b \<Longrightarrow> b \<le> d \<Longrightarrow> written (written v a b g) b d g = written v a d g"
  by (rule nth_equalityI) (auto simp add: written_def)

lemma written_all: "written (replicate n z) 0 n g = map g [0..<n]"
  by (rule nth_equalityI) (simp_all add: written_def)

section \<open>Materialisation\<close>

lemma from_expr_cols:
  fixes m :: "'a::len word matrix" and f :: "nat \<Rightarrow> nat \<Rightarrow> 'b::len word"
  assumes "\<And>j. j < c \<Longrightarrow> at expr i j = Inr (f i j)"
    and "num_cols m = c"
    and "i * c + c \<le> length (matrix_vec m)"
    and "j \<le> c"
  shows "for_loop j c (store_elem expr i) m =
         Inr (m\<lparr>matrix_vec := written (matrix_vec m) (i * c + j) (i * c + c)
                (\<lambda>k. scast (f (k div c) (k mod c)))\<rparr>)"
  using assms
proof (induction "c - j" arbitrary: j m)
  case 0
  then show ?case by simp
next
  case (Suc d)
  let ?g = "\<lambda>k. scast (f (k div c) (k mod c)) :: 'a word"
  from Suc have jc: "j < c" by simp
  let ?m' = "m\<lparr>matrix_vec := (matrix_vec m)[i * c + j := ?g (i * c + j)]\<rparr>"
  have step: "store_elem expr i j m = Inr ?m'"
    using Suc.prems jc by (simp add: store_elem_def vector_assign_def)
  have "for_loop j c (store_elem expr i) m = for_loop (Suc j) c (store_elem expr i) ?m'"
    using jc step by (rule for_loop_step)
  also have "\<dots> = Inr (?m'\<lparr>matrix_vec := written (matrix_vec ?m') (i * c + Suc j) (i * c + c) ?g\<rparr>)"
    using Suc.hyps Suc.prems jc by (intro Suc.hyps(1)) simp_all
  also have "written (matrix_vec ?m') (i * c + Suc j) (i * c + c) ?g
             = written (matrix_vec m) (i * c + j) (i * c + c) ?g"
    using written_step [of "i * c + j" "i * c + c" "matrix_vec m" ?g] Suc.prems jc by simp
  finally show ?case by simp
qed

lemma from_expr_rows:
  fixes m :: "'a::len word matrix" and f :: "nat \<Rightarrow> nat \<Rightarrow> 'b::len word"
  assumes "\<And>i j. i < r \<Longrightarrow> j < c \<Longrightarrow> at expr i j = Inr (f i j)"
    and "num_cols m = c"
    and "r * c \<le> length (matrix_vec m)"
    and "i \<le> r"
  shows "for_loop i r (store_row expr) m =
         Inr (m\<lparr>matrix_vec := written (matrix_vec m) (i * c) (r * c)
                (\<lambda>k. scast (f (k div c) (k mod c)))\<rparr>)"
  using assms
proof (induction "r - i" arbitrary: i m)
  case 0
  then show ?case by simp
next
  case (Suc d)
  let ?g = "\<lambda>k. scast (f (k div c) (k mod c)) :: 'a word"
  from Suc have ir: "i < r" by simp
  then have le: "Suc i * c \<le> r * c" by (intro mult_le_mono1) simp
  let ?m' = "m\<lparr>matrix_vec := written (matrix_vec m) (i * c) (i * c + c) ?g\<rparr>"
  have "for_loop 0 c (store_elem expr i) m
        = Inr (m\<lparr>matrix_vec := written (matrix_vec m) (i * c + 0) (i * c + c) ?g\<rparr>)"
    using Suc.prems ir le by (intro from_expr_cols) simp_all
  then have step: "store_row expr i m = Inr ?m'"
    using Suc.prems by (simp add: store_row_def)
  have "for_loop i r (store_row expr) m = for_loop (Suc i) r (store_row expr) ?m'"
    using ir step by (rule for_loop_step)
  also have "\<dots> = Inr (?m'\<lparr>matrix_vec := written (matrix_vec ?m') (Suc i * c) (r * c) ?g\<rparr>)"
    using Suc.hyps Suc.prems ir by (intro Suc.hyps(1)) simp_all
  also have "written (matrix_vec ?m') (Suc i * c) (r * c) ?g
             = written (matrix_vec m) (i * c) (r * c) ?g"
    using written_append [of "i * c" "Suc i * c" "r * c" "matrix_vec m" ?g] le
    by (simp add: add.commute)
  finally show ?case by simp
qed

lemma matrix_from_expr_eq:
  fixes f :: "nat \<Rightarrow> nat \<Rightarrow> 'b::len word"
  assumes "\<And>i j. i < num_rows expr \<Longrightarrow> j < num_cols expr \<Longrightarrow> at expr i j = Inr (f i j)"
  shows "matrix_from_expr expr =
         Inr \<lparr>num_rows = num_rows expr, num_cols = num_cols expr,
              matrix_vec = map (\<lambda>k. scast (f (k div num_cols expr) (k mod num_cols expr)) :: 'a::len word)
                             [0..<num_rows expr * num_cols expr]\<rparr>"
  unfolding matrix_from_expr_def
  by (subst from_expr_rows [where f = f and c = "num_cols expr"])
     (simp_all add: assms written_all)

lemma matrix_at_map:
  "i < r \<Longrightarrow> j < c \<Longrightarrow>
   matrix_at \<lparr>num_rows = r, num_cols = c, matrix_vec = map g [0..<r * c]\<rparr> i j = Inr (g (i * c + j))"
  by (simp add: matrix_at_def vector_index_def index_in_buffer)

lemma matrix_from_expr_at:
  fixes f :: "nat \<Rightarrow> nat \<Rightarrow> 'b::len word"
  assumes "\<And>i j. i < num_rows expr \<Longrightarrow> j < num_cols expr \<Longrightarrow> at expr i j = Inr (f i j)"
  shows "\<exists>m :: 'a::len word matrix. matrix_from_expr expr = Inr m
           \<and> num_rows m = num_rows expr \<and> num_cols m = num_cols expr \<and> matrix_inv m
           \<and> (\<forall>i j. i < num_rows expr \<and> j < num_cols expr
                \<longrightarrow> matrix_at m i j = Inr (scast (f i j)))"
proof -
  let ?r = "num_rows expr" and ?c = "num_cols expr"
  let ?g = "\<lambda>k. scast (f (k div ?c) (k mod ?c)) :: 'a word"
  let ?m = "\<lparr>num_rows = ?r, num_cols = ?c, matrix_vec = map ?g [0..<?r * ?c]\<rparr>"
  have "matrix_from_expr expr = Inr ?m"
    using assms by (rule matrix_from_expr_eq)
  moreover have "matrix_inv ?m"
    by (simp add: matrix_inv_def)
  moreover have "matrix_at ?m i j = Inr (scast (f i j))" if "i < ?r" "j < ?c" for i j
    using that by (simp add: matrix_at_map)
  ultimately show ?thesis by simp
qed

lemma as_expr_at:
  "matrix_inv m \<Longrightarrow> i < num_rows m \<Longrightarrow> j < num_cols m \<Longrightarrow>
   at (matrix_as_expr m) i j = Inr (matrix_vec m ! (i * num_cols m + j))"
  by (simp add: matrix_as_expr_def matrix_at_in_range)

lemma as_expr_shape [simp]:
  "num_rows (matrix_as_expr m) = num_rows m" "num_cols (matrix_as_expr m) = num_cols m"
  by (simp_all add: matrix_as_expr_def)

section \<open>Sum and difference\<close>

text \<open>
  Claim C2. For dense \<open>A\<close> and \<open>B\<close> of equal shape (each holding a buffer of
  \<open>rows * cols\<close> elements), building \<open>A + B\<close> and \<open>A - B\<close> succeeds, materialising the
  nodes succeeds, and the stores obtained hold \<open>A.at(i,j) + B.at(i,j)\<close> and
  \<open>A.at(i,j) - B.at(i,j)\<close> at every coordinate \<open>(i,j)\<close> of the shape.
\<close>

theorem sum_sub_materialised:
  fixes A B :: "'a::len word matrix"
  assumes "matrix_inv A" and "matrix_inv B"
    and "num_rows A = num_rows B" and "num_cols A = num_cols B"
    and "i < num_rows A" and "j < num_cols A"
  shows "\<exists>x y sum_node diff_node (S :: 'a word matrix) (D :: 'a word matrix).
           matrix_at A i j = Inr x \<and> matrix_at B i j = Inr y
         \<and> operator_plus (matrix_as_expr A) (matrix_as_expr B) = Inr sum_node
         \<and> matrix_from_expr sum_node = Inr S
         \<and> num_rows S = num_rows A \<and> num_cols S = num_cols A
         \<and> matrix_at S i j = Inr (x + y)
         \<and> operator_minus (matrix_as_expr A) (matrix_as_expr B) = Inr diff_node
         \<and> matrix_from_expr diff_node = Inr D
         \<and> num_rows D = num_rows A \<and> num_cols D = num_cols A
         \<and> matrix_at D i j = Inr (x - y)"
proof -
  let ?a = "\<lambda>i j. matrix_vec A ! (i * num_cols A + j)"
  let ?b = "\<lambda>i j. matrix_vec B ! (i * num_cols B + j)"
  let ?sum = "\<lparr>num_rows = num_rows A, num_cols = num_cols A,
               at = matrix_sum_at (matrix_as_expr A) (matrix_as_expr B)\<rparr>"
  let ?diff = "\<lparr>num_rows = num_rows A, num_cols = num_cols A,
                at = matrix_sub_at (matrix_as_expr A) (matrix_as_expr B)\<rparr>"
  have A: "matrix_at A i j = Inr (?a i j)" and B: "matrix_at B i j = Inr (?b i j)"
    using assms by (simp_all add: matrix_at_in_range)
  have plus: "operator_plus (matrix_as_expr A) (matrix_as_expr B) = Inr ?sum"
    using assms by (simp add: operator_plus_def matrix_sum_def)
  have minus: "operator_minus (matrix_as_expr A) (matrix_as_expr B) = Inr ?diff"
    using assms by (simp add: operator_minus_def matrix_sub_def)
  have "at ?sum i j = Inr (?a i j + ?b i j)"
    if "i < num_rows ?sum" "j < num_cols ?sum" for i j
    using that assms by (simp add: matrix_sum_at_def as_expr_at)
  from matrix_from_expr_at [where ?'a = 'a and expr = ?sum and f = "\<lambda>i j. ?a i j + ?b i j", OF this]
  obtain S :: "'a word matrix" where S: "matrix_from_expr ?sum = Inr S"
    "num_rows S = num_rows A" "num_cols S = num_cols A"
    "matrix_at S i j = Inr (?a i j + ?b i j)"
    using assms by auto
  have "at ?diff i j = Inr (?a i j - ?b i j)"
    if "i < num_rows ?diff" "j < num_cols ?diff" for i j
    using that assms by (simp add: matrix_sub_at_def as_expr_at)
  from matrix_from_expr_at [where ?'a = 'a and expr = ?diff and f = "\<lambda>i j. ?a i j - ?b i j", OF this]
  obtain D :: "'a word matrix" where D: "matrix_from_expr ?diff = Inr D"
    "num_rows D = num_rows A" "num_cols D = num_cols A"
    "matrix_at D i j = Inr (?a i j - ?b i j)"
    using assms by auto
  from A B plus minus S D show ?thesis by blast
qed


theorem sum_sub_materialised_witness:
  "\<exists>sum_node diff_node (S :: cint matrix) (D :: cint matrix).
       operator_plus (matrix_as_expr (matrix_ctor 2 2 [1, 2, 3, 4 :: cint]))
                     (matrix_as_expr (matrix_ctor 2 2 [5, 6, 7, 8])) = Inr sum_node
     \<and> matrix_from_expr sum_node = Inr S
     \<and> matrix_at S 1 0 = Inr 10
     \<and> operator_minus (matrix_as_expr (matrix_ctor 2 2 [1, 2, 3, 4 :: cint]))
                      (matrix_as_expr (matrix_ctor 2 2 [5, 6, 7, 8])) = Inr diff_node
     \<and> matrix_from_expr diff_node = Inr D
     \<and> matrix_at D 1 0 = Inr (- 4)"
proof -
  let ?A = "matrix_ctor 2 2 [1, 2, 3, 4 :: cint]" and ?B = "matrix_ctor 2 2 [5, 6, 7, 8 :: cint]"
  have "matrix_inv ?A" and "matrix_inv ?B" and "num_rows ?A = num_rows ?B"
    and "num_cols ?A = num_cols ?B" and "1 < num_rows ?A" and "0 < num_cols ?A"
    by (simp_all add: matrix_inv_def matrix_ctor_def)
  from sum_sub_materialised [OF this]
  obtain x y sum_node diff_node and S D :: "cint matrix" where
    *: "matrix_at ?A 1 0 = Inr x" "matrix_at ?B 1 0 = Inr y"
      "operator_plus (matrix_as_expr ?A) (matrix_as_expr ?B) = Inr sum_node"
      "matrix_from_expr sum_node = Inr S"
      "num_rows S = num_rows ?A" "num_cols S = num_cols ?A" "matrix_at S 1 0 = Inr (x + y)"
      "operator_minus (matrix_as_expr ?A) (matrix_as_expr ?B) = Inr diff_node"
      "matrix_from_expr diff_node = Inr D"
      "num_rows D = num_rows ?A" "num_cols D = num_cols ?A" "matrix_at D 1 0 = Inr (x - y)"
    by blast
  from *(1,2) have "x = 3" and "y = 7"
    by (simp_all add: matrix_at_def matrix_ctor_def vector_index_def)
  with *(7,12) have "matrix_at S 1 0 = Inr 10" and "matrix_at D 1 0 = Inr (- 4)"
    by simp_all
  with *(3,4,8,9) show ?thesis
    by blast
qed


section \<open>Matrix product\<close>

text \<open>Narrowing after an addition in a wider type is an addition in the narrow type:
  for an element type at least as wide as \<^verbatim>\<open>int\<close>, the accumulator receives every
  product narrowed to \<^verbatim>\<open>int\<close>. The product node therefore computes the dot product of
  the narrowed products; with \<^verbatim>\<open>int\<close> elements, where nothing is narrowed, that is the dot
  product itself (\<open>prod_int_materialised\<close>, and the 2 by 2 example of the
  specification).\<close>

lemma scast_add_narrow:
  fixes d :: "'b::len word" and x :: "'a::len word"
  assumes "LENGTH('b) \<le> LENGTH('a)"
  shows "(scast ((scast d :: 'a word) + x) :: 'b word) = d + scast x"
proof -
  let ?n = "LENGTH('b)"
  have "take_bit ?n (sint ((scast d :: 'a word) + x)) = take_bit ?n (sint d + sint x)"
  proof -
    have "take_bit ?n (sint ((scast d :: 'a word) + x)) = take_bit ?n (uint ((scast d :: 'a word) + x))"
      using assms by (simp add: sint_uint take_bit_signed_take_bit)
    also have "\<dots> = take_bit ?n (uint (scast d :: 'a word) + uint x)"
      using assms by (simp add: uint_word_arith_bintrs min_def)
    also have "\<dots> = take_bit ?n (take_bit ?n (uint (scast d :: 'a word)) + take_bit ?n (uint x))"
      by (simp only: take_bit_add)
    also have "take_bit ?n (uint (scast d :: 'a word)) = take_bit ?n (sint d)"
      using assms by (simp add: min_def uint_word_of_int_eq [of "sint d", folded scast_eq])
    also have "take_bit ?n (uint x) = take_bit ?n (sint x)"
      using assms by (simp add: sint_uint take_bit_signed_take_bit)
    finally show ?thesis by (simp only: take_bit_add)
  qed
  then have eq: "(word_of_int (sint ((scast d :: 'a word) + x)) :: 'b word) = word_of_int (sint d + sint x)"
    by (simp only: word_of_int_eq_iff)
  have "(scast ((scast d :: 'a word) + x) :: 'b word)
        = word_of_int (sint ((scast d :: 'a word) + x))"
    by (rule scast_eq)
  also note eq
  also have "(word_of_int (sint d + sint x) :: 'b word) = d + scast x"
    by simp
  finally show ?thesis .
qed

lemma int_add_assign_wide:
  fixes x :: "'a::len word"
  assumes "32 \<le> LENGTH('a)"
  shows "int_add_assign d x = d + scast x"
  unfolding int_add_assign_def using assms by (intro scast_add_narrow) simp

lemma prod_at_loop:
  fixes f g :: "nat \<Rightarrow> 'a::len word"
  assumes "32 \<le> LENGTH('a)"
    and "\<And>t. t < k \<Longrightarrow> at lhs row t = Inr (f t)"
    and "\<And>t. t < k \<Longrightarrow> at rhs t col = Inr (g t)"
    and "i \<le> k"
  shows "for_loop i k
           (\<lambda>i dot_product.
              case at lhs row i of
                Inl e \<Rightarrow> Inl e
              | Inr x \<Rightarrow>
                  (case at rhs i col of
                     Inl e \<Rightarrow> Inl e
                   | Inr y \<Rightarrow> Inr (int_add_assign dot_product (x * y))))
           acc
         = Inr (acc + (\<Sum>t = i..<k. scast (f t * g t)))"
  using assms(4)
proof (induction "k - i" arbitrary: i acc)
  case 0
  then show ?case by simp
next
  case (Suc d)
  then have ik: "i < k" by simp
  show ?case
    apply (subst for_loop.simps)
    using ik Suc.hyps(2) assms(1,2,3)
    apply (simp add: Suc.hyps(1) sum.atLeast_Suc_lessThan add.assoc int_add_assign_wide)
    done
qed

lemma matrix_prod_at_eq:
  fixes f g :: "nat \<Rightarrow> 'a::len word"
  assumes "32 \<le> LENGTH('a)"
    and "\<And>t. t < k \<Longrightarrow> at lhs row t = Inr (f t)"
    and "\<And>t. t < k \<Longrightarrow> at rhs t col = Inr (g t)"
  shows "matrix_prod_at lhs rhs k row col = Inr (\<Sum>t = 0..<k. scast (f t * g t))"
  unfolding matrix_prod_at_def
  by (subst prod_at_loop [where f = f and g = g]) (simp_all add: assms)

lemma prod_materialised:
  fixes A B :: "'a::len word matrix"
  assumes "32 \<le> LENGTH('a)"
    and "matrix_inv A" and "matrix_inv B" and "num_cols A = num_rows B"
    and "i < num_rows A" and "j < num_cols B"
  shows "\<exists>node (P :: 'a word matrix).
           operator_times (matrix_as_expr A) (matrix_as_expr B) = Inr node
         \<and> matrix_from_expr node = Inr P
         \<and> num_rows P = num_rows A \<and> num_cols P = num_cols B
         \<and> matrix_at P i j =
             Inr (scast (\<Sum>t = 0..<num_cols A.
                    scast (matrix_vec A ! (i * num_cols A + t)
                           * matrix_vec B ! (t * num_cols B + j)) :: cint))
         \<and> (\<forall>t<num_cols A. matrix_at A i t = Inr (matrix_vec A ! (i * num_cols A + t))
                            \<and> matrix_at B t j = Inr (matrix_vec B ! (t * num_cols B + j)))"
proof -
  let ?a = "\<lambda>i t. matrix_vec A ! (i * num_cols A + t)"
  let ?b = "\<lambda>t j. matrix_vec B ! (t * num_cols B + j)"
  let ?dot = "\<lambda>i j. \<Sum>t = 0..<num_cols A. scast (?a i t * ?b t j) :: cint"
  let ?node = "\<lparr>num_rows = num_rows A, num_cols = num_cols B,
                at = matrix_prod_at (matrix_as_expr A) (matrix_as_expr B) (num_cols A)\<rparr>"
  have node: "operator_times (matrix_as_expr A) (matrix_as_expr B) = Inr ?node"
    using assms by (simp add: operator_times_def matrix_prod_def)
  have "at ?node i j = Inr (?dot i j)"
    if "i < num_rows ?node" "j < num_cols ?node" for i j
    using that assms
    by (simp add: matrix_prod_at_eq [where f = "?a i" and g = "\<lambda>t. ?b t j"] as_expr_at)
  from matrix_from_expr_at [where ?'a = 'a and expr = ?node and f = ?dot, OF this]
  obtain P :: "'a word matrix" where P: "matrix_from_expr ?node = Inr P"
    "num_rows P = num_rows A" "num_cols P = num_cols B"
    "matrix_at P i j = Inr (scast (?dot i j))"
    using assms by auto
  have "matrix_at A i t = Inr (?a i t)" "matrix_at B t j = Inr (?b t j)" if "t < num_cols A" for t
    using that assms by (simp_all add: matrix_at_in_range)
  with node P show ?thesis by blast
qed

lemma prod_int_materialised:
  fixes A B :: "cint matrix"
  assumes "matrix_inv A" and "matrix_inv B" and "num_cols A = num_rows B"
    and "i < num_rows A" and "j < num_cols B"
  shows "\<exists>node (P :: cint matrix).
           operator_times (matrix_as_expr A) (matrix_as_expr B) = Inr node
         \<and> matrix_from_expr node = Inr P
         \<and> num_rows P = num_rows A \<and> num_cols P = num_cols B
         \<and> matrix_at P i j =
             Inr (\<Sum>t = 0..<num_cols A.
                    matrix_vec A ! (i * num_cols A + t) * matrix_vec B ! (t * num_cols B + j))
         \<and> (\<forall>t<num_cols A. matrix_at A i t = Inr (matrix_vec A ! (i * num_cols A + t))
                            \<and> matrix_at B t j = Inr (matrix_vec B ! (t * num_cols B + j)))"
  using prod_materialised [OF _ assms] by simp

lemma prod_int_example:
  "\<exists>node. operator_times (matrix_as_expr (matrix_ctor 2 2 [1, 2, 3, 4 :: cint]))
                         (matrix_as_expr (matrix_ctor 2 2 [5, 6, 7, 8])) = Inr node
      \<and> matrix_from_expr node = Inr (matrix_ctor 2 2 [19, 22, 43, 50 :: cint])"
  by (simp add: operator_times_def matrix_prod_def matrix_as_expr_def matrix_ctor_def
      matrix_from_expr_def store_row_def store_elem_def matrix_prod_at_def
      for_loop.simps matrix_at_def vector_index_def vector_assign_def int_add_assign_def
      eval_nat_numeral)

text \<open>
  Claim C1. For every element type, materialising \<open>A * B\<close> holds at \<open>(i,j)\<close> the sum
  over \<open>t\<close> of \<open>A.at(i,t) * B.at(t,j)\<close>, accumulated from the zero of the result element
  type. \<^verbatim>\<open>auto dot_product = 0\<close> makes the accumulator an \<^verbatim>\<open>int\<close> whatever the element
  type is, and \<^verbatim>\<open>+=\<close> narrows every partial sum to it. With \<^verbatim>\<open>long long\<close> elements,
  \<open>A = {{4294967296}}\<close> and \<open>B = {{1}}\<close>, the store materialised from \<open>A * B\<close> holds \<open>0\<close>,
  where the dot product is \<open>4294967296\<close>.
\<close>

theorem prod_accumulator_is_int:
  "\<exists>node. operator_times (matrix_as_expr (matrix_ctor 1 1 [4294967296 :: clonglong]))
                         (matrix_as_expr (matrix_ctor 1 1 [1])) = Inr node
     \<and> matrix_from_expr node = Inr (matrix_ctor 1 1 [0 :: clonglong])
     \<and> matrix_at (matrix_ctor 1 1 [4294967296 :: clonglong]) 0 0 = Inr 4294967296
     \<and> matrix_at (matrix_ctor 1 1 [1 :: clonglong]) 0 0 = Inr 1
     \<and> (4294967296 :: clonglong) * 1 \<noteq> 0"
  by (simp add: operator_times_def matrix_prod_def matrix_as_expr_def matrix_ctor_def
      matrix_from_expr_def store_row_def store_elem_def matrix_prod_at_def
      for_loop.simps matrix_at_def vector_index_def vector_assign_def int_add_assign_def)

section \<open>Construction of the nodes\<close>

text \<open>
  Claim C3. Building a sum or a difference from operands of different shapes, or a
  matrix product from operands with \<open>lhs.colCount() \<noteq> rhs.rowCount()\<close>, fails at the
  assertion of the constructor, whatever the lookups \<open>f\<close>, \<open>g\<close>, \<open>p\<close>, \<open>q\<close> of the operands
  are (none is called); with compatible operands the node is built and its shape is the
  common shape, or \<open>(lhs.rowCount(), rhs.colCount())\<close> for the product.
\<close>

theorem node_construction:
  fixes u v :: "'a::len word matrix_expr" and lhs rhs :: "'b::len word matrix_expr"
  shows "(\<not> (num_rows u = num_rows v \<and> num_cols u = num_cols v) \<longrightarrow>
            matrix_sum (u\<lparr>at := f\<rparr>) (v\<lparr>at := g\<rparr>) = Inl Assertion_failed
          \<and> matrix_sub (u\<lparr>at := f\<rparr>) (v\<lparr>at := g\<rparr>) = Inl Assertion_failed)
       \<and> (num_rows u = num_rows v \<and> num_cols u = num_cols v \<longrightarrow>
            (\<exists>node. matrix_sum u v = Inr node
                \<and> num_rows node = num_rows u \<and> num_cols node = num_cols u
                \<and> num_rows node = num_rows v \<and> num_cols node = num_cols v)
          \<and> (\<exists>node. matrix_sub u v = Inr node
                \<and> num_rows node = num_rows u \<and> num_cols node = num_cols u
                \<and> num_rows node = num_rows v \<and> num_cols node = num_cols v))
       \<and> (num_cols lhs \<noteq> num_rows rhs \<longrightarrow>
            matrix_prod (lhs\<lparr>at := p\<rparr>) (rhs\<lparr>at := q\<rparr>) = Inl Assertion_failed)
       \<and> (num_cols lhs = num_rows rhs \<longrightarrow>
            (\<exists>node. matrix_prod lhs rhs = Inr node
                \<and> num_rows node = num_rows lhs \<and> num_cols node = num_cols rhs))"
  by (simp add: matrix_sum_def matrix_sub_def matrix_prod_def)

theorem node_construction_witness:
  "matrix_sum (matrix_as_expr (matrix_ctor 2 3 [1, 2, 3, 4, 5, 6 :: cint]))
              (matrix_as_expr (matrix_ctor 3 2 [1, 2, 3, 4, 5, 6])) = Inl Assertion_failed
   \<and> matrix_sub (matrix_as_expr (matrix_ctor 2 3 [1, 2, 3, 4, 5, 6 :: cint]))
                (matrix_as_expr (matrix_ctor 3 2 [1, 2, 3, 4, 5, 6])) = Inl Assertion_failed
   \<and> matrix_prod (matrix_as_expr (matrix_ctor 2 3 [1, 2, 3, 4, 5, 6 :: cint]))
                 (matrix_as_expr (matrix_ctor 4 2 [1, 2, 3, 4, 5, 6, 7, 8])) = Inl Assertion_failed
   \<and> (\<exists>node. matrix_sum (matrix_as_expr (matrix_ctor 2 3 [1, 2, 3, 4, 5, 6 :: cint]))
                         (matrix_as_expr (matrix_ctor 2 3 [6, 5, 4, 3, 2, 1])) = Inr node
         \<and> num_rows node = 2 \<and> num_cols node = 3)
   \<and> (\<exists>node. matrix_sub (matrix_as_expr (matrix_ctor 2 3 [1, 2, 3, 4, 5, 6 :: cint]))
                         (matrix_as_expr (matrix_ctor 2 3 [6, 5, 4, 3, 2, 1])) = Inr node
         \<and> num_rows node = 2 \<and> num_cols node = 3)
   \<and> (\<exists>node. matrix_prod (matrix_as_expr (matrix_ctor 2 3 [1, 2, 3, 4, 5, 6 :: cint]))
                          (matrix_as_expr (matrix_ctor 3 2 [1, 2, 3, 4, 5, 6])) = Inr node
         \<and> num_rows node = 2 \<and> num_cols node = 2)"
proof -
  let ?a = "matrix_as_expr (matrix_ctor 2 3 [1, 2, 3, 4, 5, 6 :: cint])"
  let ?b = "matrix_as_expr (matrix_ctor 3 2 [1, 2, 3, 4, 5, 6 :: cint])"
  let ?c = "matrix_as_expr (matrix_ctor 4 2 [1, 2, 3, 4, 5, 6, 7, 8 :: cint])"
  let ?d = "matrix_as_expr (matrix_ctor 2 3 [6, 5, 4, 3, 2, 1 :: cint])"
  have shapes: "num_rows ?a = 2" "num_cols ?a = 3" "num_rows ?b = 3" "num_cols ?b = 2"
    "num_rows ?c = 4" "num_cols ?c = 2" "num_rows ?d = 2" "num_cols ?d = 3"
    by (simp_all add: matrix_ctor_def)
  have upd: "\<And>e :: cint matrix_expr. e\<lparr>at := at e\<rparr> = e" by simp
  from node_construction [where u = ?a and v = ?b and lhs = ?a and rhs = ?c
        and f = "at ?a" and g = "at ?b" and p = "at ?a" and q = "at ?c"]
    node_construction [where u = ?a and v = ?d and lhs = ?a and rhs = ?b
        and f = "at ?a" and g = "at ?d" and p = "at ?a" and q = "at ?b"]
  show ?thesis
    unfolding upd shapes by auto
qed

section \<open>Scalar products\<close>



section \<open>Compound assignment\<close>

text \<open>
  Claim C10. \<^verbatim>\<open>+=\<close>, \<^verbatim>\<open>-=\<close> and \<^verbatim>\<open>*=\<close> leave their left operand as it was and return
  what \<^verbatim>\<open>+\<close>, \<^verbatim>\<open>-\<close> and \<^verbatim>\<open>*\<close> return on the same operands: a new node, or the failure of
  its constructor.
\<close>

theorem compound_assignment:
  fixes lhs rhs :: "'a::len word matrix_expr" and s :: "'a word"
  shows "operator_plus_assign lhs rhs = (lhs, operator_plus lhs rhs)
       \<and> operator_minus_assign lhs rhs = (lhs, operator_minus lhs rhs)
       \<and> operator_times_assign lhs rhs = (lhs, operator_times lhs rhs)
       \<and> operator_times_assign_scalar_lhs s rhs = (s, operator_times_scalar_lhs s rhs)
       \<and> operator_times_assign_scalar_rhs lhs s = (lhs, operator_times_scalar_rhs lhs s)"
  by (simp add: operator_plus_assign_def operator_minus_assign_def operator_times_assign_def
      operator_times_assign_scalar_lhs_def operator_times_assign_scalar_rhs_def
      operator_plus_def operator_minus_def operator_times_def
      operator_times_scalar_lhs_def operator_times_scalar_rhs_def)

section \<open>The default constructor\<close>

text \<open>
  Claim C8. A default-constructed store has the shape 0 by 0. The defaulted constructor
  initialises neither count: the buffer is empty, and the shape is whatever the storage
  held (here 7 and 3), so that \<^verbatim>\<open>matrix<int> c;\<close> has an indeterminate shape; only storage
  that was zeroed beforehand gives 0 by 0.
\<close>

theorem default_ctor_shape:
  "num_rows (matrix_default \<lparr>num_rows = 7, num_cols = 3, matrix_vec = [] :: cint list\<rparr>) = 7
   \<and> num_cols (matrix_default \<lparr>num_rows = 7, num_cols = 3, matrix_vec = [] :: cint list\<rparr>) = 3
   \<and> matrix_vec (matrix_default \<lparr>num_rows = 7, num_cols = 3, matrix_vec = [] :: cint list\<rparr>) = []
   \<and> matrix_default (mem :: cint matrix)
       = \<lparr>num_rows = num_rows mem, num_cols = num_cols mem, matrix_vec = []\<rparr>"
  by (simp add: matrix_default_def)

section \<open>The maximum\<close>

text \<open>On a store with at least one element, \<^verbatim>\<open>max\<close> returns an element of the buffer
  that no element exceeds in the signed order.\<close>

lemma fold_max:
  fixes a :: "'a::len word"
  defines "step \<equiv> \<lambda>cur_val max_val :: 'a word. if word_sless cur_val max_val then max_val else cur_val"
  shows "fold step xs a \<in> insert a (set xs)
       \<and> word_sle a (fold step xs a)
       \<and> (\<forall>y\<in>set xs. word_sle y (fold step xs a))"
proof (induction xs arbitrary: a)
  case Nil
  then show ?case by simp
next
  case (Cons x xs)
  from Cons.IH [of "step x a"]
  show ?case
    by (auto simp add: step_def word_sle_eq word_sless_alt split: if_splits)
qed

lemma matrix_max_nonempty:
  fixes m :: "'a::len word matrix"
  assumes "matrix_vec m \<noteq> []"
  shows "\<exists>x. matrix_max m = Inr x \<and> x \<in> set (matrix_vec m)
             \<and> (\<forall>y\<in>set (matrix_vec m). word_sle y x)"
proof -
  from assms obtain z zs where v: "matrix_vec m = z # zs"
    by (cases "matrix_vec m") auto
  then have "z \<in> set (matrix_vec m)" by simp
  with fold_max [of "matrix_vec m" z] v
  show ?thesis
    by (auto simp add: matrix_max_def vector_index_def)
qed

text \<open>
  Claim C5. \<^verbatim>\<open>max\<close> returns the maximum of a non-empty store, and on an empty store the
  call is detected as a contract violation. The first half is \<open>matrix_max_nonempty\<close>.
  \<^verbatim>\<open>max\<close> asserts nothing: on an empty store its first statement reads \<^verbatim>\<open>matrix_[0]\<close> of an
  empty vector, which nothing detects.
\<close>

theorem matrix_max_empty:
  "matrix_max (matrix_ctor 0 0 ([] :: cint list)) = Inl Undefined_behaviour
   \<and> matrix_max (matrix_default (mem :: cint matrix)) = Inl Undefined_behaviour"
  by (simp add: matrix_max_def matrix_ctor_def matrix_default_def vector_index_def)

section \<open>Rendering\<close>

lemma put_word_5: "put_word (5 :: cint) = ''5''"
  by (simp add: put_word_def show_int_def show_nat.simps digit_char_def)

lemma shl_cols:
  assumes "\<And>j. j < c \<Longrightarrow> at expr i j = Inr (f i j)" and "j \<le> c"
  shows "for_loop j c
           (\<lambda>j stream. case at expr i j of
                          Inl e \<Rightarrow> Inl e
                        | Inr x \<Rightarrow> Inr (stream @ put x @ [CHR '' '']))
           stream
         = Inr (stream @ concat (map (\<lambda>j. put (f i j) @ [CHR '' '']) [j..<c]))"
  using assms(2)
proof (induction "c - j" arbitrary: j stream)
  case 0
  then show ?case by simp
next
  case (Suc d)
  then have jc: "j < c" by simp
  show ?case
    apply (subst for_loop.simps)
    using jc Suc.hyps(2) assms(1)
    apply (simp add: Suc.hyps(1) upt_conv_Cons)
    done
qed

lemma shl_rows:
  assumes "\<And>i j. i < r \<Longrightarrow> j < c \<Longrightarrow> at expr i j = Inr (f i j)" and "i \<le> r"
  shows "for_loop i r
           (\<lambda>i stream.
              case for_loop 0 c
                     (\<lambda>j stream. case at expr i j of
                                    Inl e \<Rightarrow> Inl e
                                  | Inr x \<Rightarrow> Inr (stream @ put x @ [CHR '' '']))
                     stream of
                Inl e \<Rightarrow> Inl e
              | Inr stream' \<Rightarrow> Inr (stream' @ [CHR 0x0A]))
           stream
         = Inr (stream @ concat (map (\<lambda>i. concat (map (\<lambda>j. put (f i j) @ [CHR '' '']) [0..<c])
                                             @ [CHR 0x0A]) [i..<r]))"
  using assms(2)
proof (induction "r - i" arbitrary: i stream)
  case 0
  then show ?case by simp
next
  case (Suc d)
  then have ir: "i < r" by simp
  let ?body = "\<lambda>i stream.
              case for_loop 0 c
                     (\<lambda>j stream. case at expr i j of
                                    Inl e \<Rightarrow> Inl e
                                  | Inr x \<Rightarrow> Inr (stream @ put x @ [CHR '' '']))
                     stream of
                Inl e \<Rightarrow> Inl e
              | Inr stream' \<Rightarrow> Inr (stream' @ [CHR 0x0A])"
  let ?line = "\<lambda>i. concat (map (\<lambda>j. put (f i j) @ [CHR '' '']) [0..<c]) @ [CHR 0x0A]"
  from ir have "for_loop 0 c
           (\<lambda>j stream. case at expr i j of
                          Inl e \<Rightarrow> Inl e
                        | Inr x \<Rightarrow> Inr (stream @ put x @ [CHR '' '']))
           stream
         = Inr (stream @ concat (map (\<lambda>j. put (f i j) @ [CHR '' '']) [0..<c]))"
    by (intro shl_cols) (simp_all add: assms(1))
  then have step: "?body i stream = Inr (stream @ ?line i)"
    by simp
  have "for_loop i r ?body stream = for_loop (Suc i) r ?body (stream @ ?line i)"
    using ir step by (rule for_loop_step)
  also have "\<dots> = Inr ((stream @ ?line i) @ concat (map ?line [Suc i..<r]))"
    using Suc.hyps(2) ir by (intro Suc.hyps(1)) simp_all
  finally show ?case
    using ir by (simp add: upt_conv_Cons)
qed

text \<open>
  Claim C9. The rendering of an expression whose lookups succeed on its shape appends,
  row after row, each value followed by a space and, after the last value of the row, a
  newline; with no rows it appends nothing; the 1 by 1 store holding 5 renders as the
  three characters \<open>5\<close>, space, newline.
\<close>

theorem rendering:
  "(num_rows expr = 0 \<longrightarrow> operator_shl put stream expr = Inr stream)
   \<and> ((\<forall>i j. i < num_rows expr \<and> j < num_cols expr \<longrightarrow> at expr i j = Inr (f i j)) \<longrightarrow>
        operator_shl put stream expr
        = Inr (stream @ concat (map (\<lambda>i. concat (map (\<lambda>j. put (f i j) @ [CHR '' ''])
                                                [0..<num_cols expr]) @ [CHR 0x0A])
                                   [0..<num_rows expr])))
   \<and> operator_shl put_word [] (matrix_as_expr (matrix_ctor 1 1 [5 :: cint]))
       = Inr [CHR ''5'', CHR '' '', CHR 0x0A]"
proof (intro conjI impI)
  show "operator_shl put stream expr = Inr stream" if "num_rows expr = 0"
    using that by (simp add: operator_shl_def)
next
  assume "\<forall>i j. i < num_rows expr \<and> j < num_cols expr \<longrightarrow> at expr i j = Inr (f i j)"
  then have *: "\<And>i j. i < num_rows expr \<Longrightarrow> j < num_cols expr \<Longrightarrow> at expr i j = Inr (f i j)"
    by simp
  show "operator_shl put stream expr
        = Inr (stream @ concat (map (\<lambda>i. concat (map (\<lambda>j. put (f i j) @ [CHR '' ''])
                                                [0..<num_cols expr]) @ [CHR 0x0A])
                                   [0..<num_rows expr]))"
    unfolding operator_shl_def
    by (subst shl_rows [where f = f]) (simp_all add: *)
next
  show "operator_shl put_word [] (matrix_as_expr (matrix_ctor 1 1 [5 :: cint]))
       = Inr [CHR ''5'', CHR '' '', CHR 0x0A]"
    by (simp add: operator_shl_def matrix_as_expr_def matrix_ctor_def matrix_at_def
        vector_index_def for_loop.simps put_word_5)
qed

theorem rendering_witness:
  "operator_shl put_word [] (matrix_as_expr (matrix_ctor 2 2 [1, 2, 3, 4 :: cint]))
     = Inr (''1 2 '' @ [CHR 0x0A] @ ''3 4 '' @ [CHR 0x0A])
   \<and> operator_shl put_word ''A'' (matrix_as_expr (matrix_ctor 0 0 ([] :: cint list))) = Inr ''A''"
proof -
  let ?e = "matrix_as_expr (matrix_ctor 2 2 [1, 2, 3, 4 :: cint])"
  let ?z = "matrix_as_expr (matrix_ctor 0 0 ([] :: cint list))"
  let ?f = "\<lambda>i j. [1, 2, 3, 4 :: cint] ! (i * 2 + j)"
  have r: "num_rows ?e = 2" "num_cols ?e = 2" "num_rows ?z = 0"
    by (simp_all add: matrix_ctor_def)
  have "at ?e i j = Inr (?f i j)" if "i < num_rows ?e \<and> j < num_cols ?e" for i j
    using that as_expr_at [of "matrix_ctor 2 2 [1, 2, 3, 4 :: cint]" i j]
    by (simp add: matrix_inv_def matrix_ctor_def)
  then have h: "\<forall>i j. i < num_rows ?e \<and> j < num_cols ?e \<longrightarrow> at ?e i j = Inr (?f i j)"
    by blast
  have p: "put_word (1 :: cint) = ''1''" "put_word (2 :: cint) = ''2''"
    "put_word (3 :: cint) = ''3''" "put_word (4 :: cint) = ''4''"
    by (simp_all add: put_word_def show_int_def show_nat.simps digit_char_def)
  have u: "[0..<2] = [0, 1]" by (simp add: upt_conv_Cons)
  from rendering [where expr = ?e and f = ?f and put = put_word and stream = "[]"] h
  have "operator_shl put_word [] ?e
        = Inr (concat (map (\<lambda>i. concat (map (\<lambda>j. put_word (?f i j) @ [CHR '' ''])
                                                [0..<num_cols ?e]) @ [CHR 0x0A])
                                   [0..<num_rows ?e]))"
    by simp
  then have "operator_shl put_word [] ?e = Inr (''1 2 '' @ [CHR 0x0A] @ ''3 4 '' @ [CHR 0x0A])"
    unfolding r u by (simp add: p)
  moreover from rendering [where expr = ?z and put = put_word and stream = "''A''"] r(3)
  have "operator_shl put_word ''A'' ?z = Inr ''A''"
    by simp
  ultimately show ?thesis by simp
qed

section \<open>The invariant of dense storage\<close>

text \<open>A loop keeps what each run of its body keeps.\<close>

lemma same_layout_refl [simp]: "same_layout m m"
  by (simp add: same_layout_def)

lemma same_layout_trans: "same_layout m m' \<Longrightarrow> same_layout m' m'' \<Longrightarrow> same_layout m m''"
  by (simp add: same_layout_def)

lemma same_layout_inv: "same_layout m m' \<Longrightarrow> matrix_inv m \<Longrightarrow> matrix_inv m'"
  by (simp add: same_layout_def matrix_inv_def)

lemma for_loop_invariant:
  assumes "for_loop i n body s = Inr s'" and "P s"
    and "\<And>k t t'. P t \<Longrightarrow> body k t = Inr t' \<Longrightarrow> P t'"
  shows "P s'"
  using assms(1,2)
proof (induction "n - i" arbitrary: i s)
  case 0
  then show ?case by simp
next
  case (Suc d)
  then have "i < n" by simp
  with Suc.prems(1) obtain t where t: "body i s = Inr t" "for_loop (Suc i) n body t = Inr s'"
    by (subst (asm) for_loop.simps) (auto split: sum.splits)
  from Suc.prems(2) t(1) have "P t" by (rule assms(3))
  with Suc.hyps t(2) show ?case by (intro Suc.hyps(1) [of "Suc i" t]) simp_all
qed

lemma matrix_at_assign_layout:
  "matrix_at_assign m row col x = Inr m' \<Longrightarrow> same_layout m m'"
  by (auto simp add: matrix_at_assign_def vector_assign_def same_layout_def
      split: if_splits sum.splits)

lemma store_elem_layout: "store_elem expr i j m = Inr m' \<Longrightarrow> same_layout m m'"
  by (auto simp add: store_elem_def vector_assign_def same_layout_def
      split: if_splits sum.splits)

lemma store_row_layout:
  assumes "store_row expr i m = Inr m'"
  shows "same_layout m m'"
proof -
  from assms have "for_loop 0 (num_cols m) (store_elem expr i) m = Inr m'"
    by (simp add: store_row_def)
  then show ?thesis
    by (rule for_loop_invariant [where P = "same_layout m"])
       (auto dest: store_elem_layout same_layout_trans)
qed

lemma matrix_from_expr_layout:
  assumes "matrix_from_expr expr = Inr m"
  shows "num_rows m = num_rows expr \<and> num_cols m = num_cols expr \<and> matrix_inv m"
proof -
  let ?m0 = "\<lparr>num_rows = num_rows expr, num_cols = num_cols expr,
              matrix_vec = replicate (num_rows expr * num_cols expr) (0 :: 'a word)\<rparr>"
  from assms have "for_loop 0 (num_rows expr) (store_row expr) ?m0 = Inr m"
    by (simp add: matrix_from_expr_def)
  then have "same_layout ?m0 m"
    by (rule for_loop_invariant [where P = "same_layout ?m0"])
       (auto dest: store_row_layout same_layout_trans)
  then show ?thesis
    by (simp add: same_layout_def matrix_inv_def)
qed

lemma list_elems_layout:
  "list_elems m cur_row cur_col row = Inr m' \<Longrightarrow> same_layout m m'"
proof (induction row arbitrary: m cur_col)
  case Nil
  then show ?case by simp
next
  case (Cons elem row)
  from Cons.prems obtain m1 where
    "matrix_at_assign m cur_row cur_col elem = Inr m1"
    "list_elems m1 cur_row (Suc cur_col) row = Inr m'"
    by (auto split: sum.splits)
  then have "same_layout m m1" and "same_layout m1 m'"
    by (auto dest: matrix_at_assign_layout Cons.IH)
  then show ?case by (rule same_layout_trans)
qed

lemma list_rows_layout:
  "list_rows m cur_row list = Inr m' \<Longrightarrow> same_layout m m'"
proof (induction list arbitrary: m cur_row)
  case Nil
  then show ?case by simp
next
  case (Cons row list)
  from Cons.prems obtain m1 where
    "list_elems m cur_row 0 row = Inr m1"
    "list_rows m1 (Suc cur_row) list = Inr m'"
    by (auto split: sum.splits if_splits)
  then have "same_layout m m1" and "same_layout m1 m'"
    by (auto dest: list_elems_layout Cons.IH)
  then show ?case by (rule same_layout_trans)
qed

lemma matrix_from_list_layout:
  assumes "matrix_from_list list = Inr m"
  shows "num_rows m = length list \<and> num_cols m = length (hd list) \<and> matrix_inv m"
proof -
  from assms obtain first rest where l: "list = first # rest"
    by (cases list) (auto simp add: matrix_from_list_def)
  with assms have "same_layout \<lparr>num_rows = length list, num_cols = length first,
                     matrix_vec = replicate (length list * length first) 0\<rparr> m"
    by (auto simp only: matrix_from_list_def list.case dest: list_rows_layout)
  with l show ?thesis
    by (simp add: same_layout_def matrix_inv_def)
qed

lemma list_elems_ok:
  assumes "matrix_inv m" and "cur_row < num_rows m" and "cur_col + length row \<le> num_cols m"
  shows "\<exists>m'. list_elems m cur_row cur_col row = Inr m'"
  using assms
proof (induction row arbitrary: m cur_col)
  case Nil
  then show ?case by simp
next
  case (Cons elem row)
  then have "cur_col < num_cols m" by simp
  with Cons.prems obtain m1 where m1: "matrix_at_assign m cur_row cur_col elem = Inr m1"
    by (auto simp add: matrix_at_assign_def vector_assign_def matrix_inv_def index_in_buffer)
  then have l: "same_layout m m1" by (rule matrix_at_assign_layout)
  with Cons.prems have "matrix_inv m1" "cur_row < num_rows m1"
    "Suc cur_col + length row \<le> num_cols m1"
    by (auto simp add: same_layout_def matrix_inv_def)
  from Cons.IH [OF this] m1 show ?case by simp
qed

lemma list_rows_ok:
  assumes "matrix_inv m" and "cur_row + length list \<le> num_rows m"
    and "\<forall>row\<in>set list. length row = num_cols m"
  shows "\<exists>m'. list_rows m cur_row list = Inr m'"
  using assms
proof (induction list arbitrary: m cur_row)
  case Nil
  then show ?case by simp
next
  case (Cons row list)
  then have "cur_row < num_rows m" and "0 + length row \<le> num_cols m" by simp_all
  with Cons.prems(1) obtain m1 where m1: "list_elems m cur_row 0 row = Inr m1"
    using list_elems_ok by blast
  then have "same_layout m m1" by (rule list_elems_layout)
  with Cons.prems have "matrix_inv m1" "Suc cur_row + length list \<le> num_rows m1"
    "\<forall>row\<in>set list. length row = num_cols m1"
    by (auto simp add: same_layout_def matrix_inv_def)
  from Cons.IH [OF this] m1 Cons.prems(3) show ?case by simp
qed

lemma matrix_from_list_ok:
  fixes list :: "'a::zero list list"
  assumes "list \<noteq> []" and "\<forall>row\<in>set list. length row = length (hd list)"
  shows "\<exists>m. matrix_from_list list = Inr m \<and> num_rows m = length list
            \<and> num_cols m = length (hd list) \<and> matrix_inv m"
proof -
  from assms(1) obtain first rest where l: "list = first # rest"
    by (cases list) auto
  let ?m0 = "\<lparr>num_rows = length list, num_cols = length first,
              matrix_vec = replicate (length list * length first) (0 :: 'a)\<rparr>"
  have "matrix_inv ?m0" "0 + length list \<le> num_rows ?m0"
    by (simp_all add: matrix_inv_def)
  moreover from assms(2) l have "\<forall>row\<in>set list. length row = num_cols ?m0"
    by simp
  ultimately obtain m where "list_rows ?m0 0 list = Inr m"
    using list_rows_ok by blast
  with l have "matrix_from_list list = Inr m"
    by (simp add: matrix_from_list_def)
  with matrix_from_list_layout [OF this] show ?thesis by simp
qed

text \<open>Every other way to a store establishes the invariant, and keeps the shape asked
  for: materialising an expression, a nested literal, and an assignment through \<^verbatim>\<open>at\<close>,
  which leaves the shape and the length of the buffer as they were. The constructor from
  explicit dimensions and a flat buffer is total and stores what it is given, so its
  store has the invariant exactly when the given buffer has \<open>rows * columns\<close> elements.\<close>

lemma invariant_established:
  "(matrix_from_expr expr = Inr m \<longrightarrow>
      num_rows m = num_rows expr \<and> num_cols m = num_cols expr \<and> matrix_inv m)
   \<and> (matrix_from_list list = Inr m' \<longrightarrow>
      num_rows m' = length list \<and> num_cols m' = length (hd list) \<and> matrix_inv m')
   \<and> (matrix_at_assign m0 row col x = Inr m1 \<longrightarrow>
      num_rows m1 = num_rows m0 \<and> num_cols m1 = num_cols m0
      \<and> length (matrix_vec m1) = length (matrix_vec m0)
      \<and> (matrix_inv m0 \<longrightarrow> matrix_inv m1))"
  by (auto simp add: matrix_inv_def
      dest: matrix_from_expr_layout matrix_from_list_layout
            matrix_at_assign_layout [unfolded same_layout_def])

lemma matrix_ctor_inv_iff:
  "num_rows (matrix_ctor rows columns data) = rows
   \<and> num_cols (matrix_ctor rows columns data) = columns
   \<and> matrix_vec (matrix_ctor rows columns data) = data
   \<and> (matrix_inv (matrix_ctor rows columns data) \<longleftrightarrow> length data = rows * columns)"
  by (simp add: matrix_ctor_def matrix_inv_def)

text \<open>The nested-literal constructor asserts the length of every row: a ragged literal
  is detected.\<close>

lemma matrix_from_list_ragged:
  "matrix_from_list [[1, 2], [3 :: cint]] = Inl Assertion_failed"
  by (simp add: matrix_from_list_def matrix_at_assign_def vector_assign_def)

text \<open>
  Claim C7. Every store has a buffer of \<open>rowCount() * colCount()\<close> elements; in
  particular the constructor from explicit dimensions and a flat buffer detects a buffer
  of another length and terminates, never producing a store that breaks the invariant.
  That constructor has no assertion: from \<open>(2, 2, {})\<close> it builds a 2 by 2 store over an
  empty buffer, which breaks the invariant and whose first lookup reads outside the
  buffer.
\<close>

theorem ctor_accepts_any_buffer:
  "num_rows (matrix_ctor 2 2 ([] :: cint list)) = 2
   \<and> num_cols (matrix_ctor 2 2 ([] :: cint list)) = 2
   \<and> matrix_vec (matrix_ctor 2 2 ([] :: cint list)) = []
   \<and> \<not> matrix_inv (matrix_ctor 2 2 ([] :: cint list))
   \<and> matrix_at (matrix_ctor 2 2 ([] :: cint list)) 0 0 = Inl Undefined_behaviour"
  by (simp add: matrix_ctor_def matrix_inv_def matrix_at_def vector_index_def)

end
